theory Spec2Isabelle
  imports Complex_Main
begin

section \<open>The object-generation test client\<close>

text \<open>
  A shallow embedding of \<^verbatim>\<open>scripts/programmable-object-test.py\<close>: the HTTP helpers, the
  domain functions that read the object state, and the long-poll loop
  \<^verbatim>\<open>wait_until_version_final\<close>.

  \<^item> JSON values (Python's \<^verbatim>\<open>Any\<close> after \<^verbatim>\<open>json.loads\<close>) are the datatype \<open>json\<close>; a
    dict is an association list read with \<open>map_of\<close>.
  \<^item> Every exception is a value of \<open>error\<close>; a function that may raise returns
    \<open>error + 'a\<close> with \<open>Inl\<close> for the exception.
  \<^item> The library functions the script calls (\<^verbatim>\<open>bytes.decode\<close>, \<^verbatim>\<open>json.loads\<close>, \<^verbatim>\<open>str\<close>,
    \<^verbatim>\<open>repr\<close>, the product of two floats) are the fields of a record \<open>pylib\<close>, a
    parameter of the model.
  \<^item> The network and the clocks are the record \<open>net\<close>: what the k-th call of
    \<^verbatim>\<open>request.urlopen\<close> does and how long it takes.
  \<^item> The effects of the script are the record \<open>world\<close>: the reading of
    \<^verbatim>\<open>time.perf_counter()\<close>, the requests sent so far and the sleeps done so far. Time
    is an exact rational number of seconds; it passes while a request is in flight and
    while the script sleeps.
  \<^item> The \<^verbatim>\<open>while True\<close> loop is a \<^theory_text>\<open>partial_function\<close> in the option monad: \<open>None\<close> means
    that the loop never ends.
  \<^item> Log lines, the \<^verbatim>\<open>attempt\<close> counter that only numbers them, and the progress printer
    \<^verbatim>\<open>_ticker\<close> write to the terminal only and are left out.
  Python names that start with an underscore lose it (\<open>sync_http_json\<close> is
  \<^verbatim>\<open>_sync_http_json\<close>).
\<close>

subsection \<open>JSON values and exceptions\<close>

datatype json =
    JNull
  | JBool bool
  | JInt int
  | JFloat rat
  | JStr string
  | JArr "json list"
  | JObj "(string \<times> json) list"

datatype error =
    RuntimeError json
  | TimeoutError string
  | TypeError string
  | KeyError string
  | AttributeError string
  | UnicodeDecodeError
  | JSONDecodeError
  | URLError string

text \<open>Every exception above is a subclass of \<^verbatim>\<open>Exception\<close>, so \<^verbatim>\<open>except Exception\<close> catches it.\<close>

fun is_Exception :: "error \<Rightarrow> bool" where
  "is_Exception (RuntimeError m) = True"
| "is_Exception (TimeoutError m) = True"
| "is_Exception (TypeError m) = True"
| "is_Exception (KeyError k) = True"
| "is_Exception (AttributeError a) = True"
| "is_Exception UnicodeDecodeError = True"
| "is_Exception JSONDecodeError = True"
| "is_Exception (URLError m) = True"

text \<open>Python's truth value of a JSON value, as \<^verbatim>\<open>not x\<close> and \<^verbatim>\<open>x or y\<close> test it.\<close>

fun truthy :: "json \<Rightarrow> bool" where
  "truthy JNull = False"
| "truthy (JBool b) = b"
| "truthy (JInt n) = (n \<noteq> 0)"
| "truthy (JFloat x) = (x \<noteq> 0)"
| "truthy (JStr s) = (s \<noteq> [])"
| "truthy (JArr xs) = (xs \<noteq> [])"
| "truthy (JObj kvs) = (kvs \<noteq> [])"

definition py_or :: "json \<Rightarrow> json \<Rightarrow> json" where
  "py_or a b = (if truthy a then a else b)"

text \<open>
  The name of the Python type of a JSON value, and a text between single quotes: the
  interpreter builds the messages of its own exceptions from them.
\<close>

fun type_name :: "json \<Rightarrow> string" where
  "type_name JNull = ''NoneType''"
| "type_name (JBool b) = ''bool''"
| "type_name (JInt n) = ''int''"
| "type_name (JFloat x) = ''float''"
| "type_name (JStr s) = ''str''"
| "type_name (JArr xs) = ''list''"
| "type_name (JObj kvs) = ''dict''"

definition py_quote :: "string \<Rightarrow> string" where
  "py_quote s = CHR 0x27 # s @ [CHR 0x27]"

definition no_attribute :: "json \<Rightarrow> string \<Rightarrow> error" where
  "no_attribute x a =
     AttributeError (py_quote (type_name x) @ '' object has no attribute '' @ py_quote a)"

definition not_subscriptable :: "json \<Rightarrow> error" where
  "not_subscriptable x = TypeError (py_quote (type_name x) @ '' object is not subscriptable'')"

definition not_iterable :: "json \<Rightarrow> error" where
  "not_iterable x = TypeError (py_quote (type_name x) @ '' object is not iterable'')"

text \<open>\<^verbatim>\<open>x.get(k)\<close>: only a dict has the method; a missing key gives \<^verbatim>\<open>None\<close>.\<close>

fun py_get :: "json \<Rightarrow> string \<Rightarrow> error + json" where
  "py_get (JObj kvs) k = Inr (case map_of kvs k of None \<Rightarrow> JNull | Some v \<Rightarrow> v)"
| "py_get JNull k = Inl (no_attribute JNull ''get'')"
| "py_get (JBool b) k = Inl (no_attribute (JBool b) ''get'')"
| "py_get (JInt n) k = Inl (no_attribute (JInt n) ''get'')"
| "py_get (JFloat x) k = Inl (no_attribute (JFloat x) ''get'')"
| "py_get (JStr s) k = Inl (no_attribute (JStr s) ''get'')"
| "py_get (JArr xs) k = Inl (no_attribute (JArr xs) ''get'')"

text \<open>
  \<^verbatim>\<open>x[k]\<close> with a string key \<open>k\<close>. The messages are those of CPython 3.11; for a string
  \<open>x\<close>, versions before 3.11 end the message after the word integers.
\<close>

fun py_getitem :: "json \<Rightarrow> string \<Rightarrow> error + json" where
  "py_getitem (JObj kvs) k = (case map_of kvs k of None \<Rightarrow> Inl (KeyError k) | Some v \<Rightarrow> Inr v)"
| "py_getitem JNull k = Inl (not_subscriptable JNull)"
| "py_getitem (JBool b) k = Inl (not_subscriptable (JBool b))"
| "py_getitem (JInt n) k = Inl (not_subscriptable (JInt n))"
| "py_getitem (JFloat x) k = Inl (not_subscriptable (JFloat x))"
| "py_getitem (JStr s) k =
     Inl (TypeError (''string indices must be integers, not '' @ py_quote ''str''))"
| "py_getitem (JArr xs) k = Inl (TypeError ''list indices must be integers or slices, not str'')"

text \<open>
  \<^verbatim>\<open>for t in x\<close>: a list gives its elements, a dict its keys, a string its characters;
  nothing else is iterable.
\<close>

fun py_iter :: "json \<Rightarrow> error + json list" where
  "py_iter (JArr xs) = Inr xs"
| "py_iter (JObj kvs) = Inr (map JStr (remdups (map fst kvs)))"
| "py_iter (JStr s) = Inr (map (\<lambda>c. JStr [c]) s)"
| "py_iter JNull = Inl (not_iterable JNull)"
| "py_iter (JBool b) = Inl (not_iterable (JBool b))"
| "py_iter (JInt n) = Inl (not_iterable (JInt n))"
| "py_iter (JFloat x) = Inl (not_iterable (JFloat x))"

text \<open>\<^verbatim>\<open>str(n)\<close> of an integer, and \<^verbatim>\<open>int(x)\<close> of a number (truncation towards zero).\<close>

fun str_nat :: "nat \<Rightarrow> string" where
  "str_nat n =
     (if n < 10 then [char_of (48 + n)]
      else str_nat (n div 10) @ [char_of (48 + n mod 10)])"

definition str_int :: "int \<Rightarrow> string" where
  "str_int i = (if i < 0 then CHR ''-'' # str_nat (nat (- i)) else str_nat (nat i))"

definition py_int :: "rat \<Rightarrow> int" where
  "py_int x = (if 0 \<le> x then \<lfloor>x\<rfloor> else \<lceil>x\<rceil>)"

text \<open>An f-string shows \<^verbatim>\<open>None\<close> as the text None.\<close>

definition fmt_opt_int :: "int option \<Rightarrow> string" where
  "fmt_opt_int x = (case x of None \<Rightarrow> ''None'' | Some i \<Rightarrow> str_int i)"

subsection \<open>The library and the network\<close>

type_synonym bytes = string

record pylib =
  decode_utf8 :: "bytes \<Rightarrow> string option"
  decode_utf8_replace :: "bytes \<Rightarrow> string"
  json_loads :: "string \<Rightarrow> json option"
  py_str :: "json \<Rightarrow> string"
  bytes_repr :: "bytes \<Rightarrow> string"
  float_mul :: "rat \<Rightarrow> rat \<Rightarrow> rat"

text \<open>
  \<open>decode_utf8\<close> is \<^verbatim>\<open>raw.decode("utf-8")\<close> and \<open>json_loads\<close> is \<^verbatim>\<open>json.loads\<close>, with
  \<open>None\<close> where they raise; \<open>decode_utf8_replace\<close> is \<^verbatim>\<open>raw.decode("utf-8", "replace")\<close>,
  which never raises; \<open>py_str\<close> is \<^verbatim>\<open>str(x)\<close> and \<open>bytes_repr\<close> is \<^verbatim>\<open>repr(raw)\<close>;
  \<open>float_mul\<close> is the product \<^verbatim>\<open>x * y\<close> of two floats, rounded as the machine rounds it
  (a float is the rational number it stands for).
\<close>

datatype urlopen_result =
    Response int bytes "string option"
  | HTTPError int bytes
  | Fails error

text \<open>
  \<^verbatim>\<open>request.urlopen\<close> either hands back a response (status, body, Content-Type header),
  or raises \<^verbatim>\<open>HTTPError\<close> (code, body) for an error status, or raises something else
  (no connection, socket timeout).
\<close>

record net =
  urlopen :: "nat \<Rightarrow> urlopen_result"
  latency :: "nat \<Rightarrow> rat"
  time_time :: rat

type_synonym request = "string \<times> string \<times> json option"

record world =
  now :: rat
  sent :: "request list"
  slept :: "rat list"

definition sleep :: "rat \<Rightarrow> world \<Rightarrow> world" where
  "sleep d w = w\<lparr>now := now w + d, slept := slept w @ [d]\<rparr>"

definition API_BASE_URL :: string where
  "API_BASE_URL = ''https://40001.cch137.com/obj-dsgn''"

subsection \<open>HTTP helpers\<close>

text \<open>\<^verbatim>\<open>json.loads(raw.decode("utf-8"))\<close>: \<open>None\<close> when either call raises.\<close>

definition loads_utf8 :: "pylib \<Rightarrow> bytes \<Rightarrow> json option" where
  "loads_utf8 L raw = (case decode_utf8 L raw of None \<Rightarrow> None | Some s \<Rightarrow> json_loads L s)"

definition read_json_bytes :: "pylib \<Rightarrow> bytes \<Rightarrow> error + json" where
  "read_json_bytes L raw =
     (case loads_utf8 L raw of
        Some j \<Rightarrow> Inr j
      | None \<Rightarrow> Inl (RuntimeError (JStr (''Non-JSON response: '' @ bytes_repr L (take 200 raw)))))"

definition sync_http_json :: "pylib \<Rightarrow> urlopen_result \<Rightarrow> error + (int \<times> json)" where
  "sync_http_json L r =
     (case r of
        Response status body ctype \<Rightarrow>
          (case read_json_bytes L body of Inl e \<Rightarrow> Inl e | Inr j \<Rightarrow> Inr (status, j))
      | HTTPError code body \<Rightarrow>
          (case loads_utf8 L body of
             Some j \<Rightarrow> Inr (code, j)
           | None \<Rightarrow>
               Inr (code, JObj [(''success'', JBool False),
                                (''error'', JStr (decode_utf8_replace L body))]))
      | Fails e \<Rightarrow> Inl e)"

text \<open>
  In \<^verbatim>\<open>_sync_http_bytes_with_content_type\<close> the \<^verbatim>\<open>try\<close> block of the \<^verbatim>\<open>HTTPError\<close> handler
  ends in a \<^verbatim>\<open>raise\<close> on every path; \<open>content_error_try\<close> is the exception that leaves it.
  The \<^verbatim>\<open>except Exception\<close> clause around it then catches that exception, whichever it is.
\<close>

definition content_error_try :: "pylib \<Rightarrow> bytes \<Rightarrow> error" where
  "content_error_try L body =
     (case decode_utf8 L body of
        None \<Rightarrow> UnicodeDecodeError
      | Some s \<Rightarrow>
          (case json_loads L s of
             None \<Rightarrow> JSONDecodeError
           | Some j \<Rightarrow>
               (case py_get j ''error'' of
                  Inl e \<Rightarrow> e
                | Inr v \<Rightarrow> RuntimeError (py_or v (JStr (py_str L j))))))"

definition sync_http_bytes_with_content_type ::
  "pylib \<Rightarrow> urlopen_result \<Rightarrow> error + (bytes \<times> string option)" where
  "sync_http_bytes_with_content_type L r =
     (case r of
        Response status body ctype \<Rightarrow> Inr (body, ctype)
      | HTTPError code body \<Rightarrow>
          (let e = content_error_try L body
           in if is_Exception e then Inl (RuntimeError (JStr (decode_utf8_replace L body)))
              else Inl e)
      | Fails e \<Rightarrow> Inl e)"

text \<open>
  The asynchronous wrappers run the helper for the next call of \<^verbatim>\<open>urlopen\<close>, log the
  request and let the time of the call pass.
\<close>

definition issue :: "net \<Rightarrow> world \<Rightarrow> request \<Rightarrow> world" where
  "issue N w rq = w\<lparr>now := now w + latency N (length (sent w)), sent := sent w @ [rq]\<rparr>"

definition http_json ::
  "pylib \<Rightarrow> net \<Rightarrow> world \<Rightarrow> string \<Rightarrow> string \<Rightarrow> json option \<Rightarrow> (error + (int \<times> json)) \<times> world" where
  "http_json L N w method url payload =
     (sync_http_json L (urlopen N (length (sent w))), issue N w (method, url, payload))"

definition http_bytes_with_content_type ::
  "pylib \<Rightarrow> net \<Rightarrow> world \<Rightarrow> string \<Rightarrow> string \<Rightarrow> (error + (bytes \<times> string option)) \<times> world" where
  "http_bytes_with_content_type L N w method url =
     (sync_http_bytes_with_content_type L (urlopen N (length (sent w))),
      issue N w (method, url, None))"

subsection \<open>Domain\<close>

text \<open>
  \<^verbatim>\<open>str(int(time.time() * 1000))\<close>: \<open>time_time N\<close> is the float that \<^verbatim>\<open>time.time()\<close> returns,
  and the product is the library's float product.
\<close>

definition make_version :: "pylib \<Rightarrow> net \<Rightarrow> string" where
  "make_version L N = str_int (py_int (float_mul L (time_time N) 1000))"

record ObjectMetadata =
  meta_id :: string
  meta_version :: string
  meta_name :: string
  meta_description :: string

text \<open>The \<^verbatim>\<open>for\<close> loop of \<^verbatim>\<open>get_version_task\<close> over the elements of the task list.\<close>

fun find_task :: "json list \<Rightarrow> string \<Rightarrow> error + json option" where
  "find_task [] version = Inr None"
| "find_task (t # ts) version =
     (case py_get t ''version'' of
        Inl e \<Rightarrow> Inl e
      | Inr v \<Rightarrow> if v = JStr version then Inr (Some t) else find_task ts version)"

definition get_version_task :: "json \<Rightarrow> string \<Rightarrow> error + json option" where
  "get_version_task state version =
     (case py_get state ''tasks'' of
        Inl e \<Rightarrow> Inl e
      | Inr tasks \<Rightarrow>
          (case py_iter (py_or tasks (JArr [])) of
             Inl e \<Rightarrow> Inl e
           | Inr ts \<Rightarrow> find_task ts version))"

definition get_version_status :: "json \<Rightarrow> string \<Rightarrow> error + json option" where
  "get_version_status state version =
     (case get_version_task state version of
        Inl e \<Rightarrow> Inl e
      | Inr None \<Rightarrow> Inr None
      | Inr (Some t) \<Rightarrow>
          if \<not> truthy t then Inr None
          else (case py_get t ''status'' of
                  Inl e \<Rightarrow> Inl e
                | Inr st \<Rightarrow>
                    if st \<in> set [JStr ''processing'', JStr ''succeeded'', JStr ''failed'']
                    then Inr (Some st) else Inr None))"

definition raise_if_failed :: "json \<Rightarrow> string \<Rightarrow> error + unit" where
  "raise_if_failed state version =
     (case get_version_task state version of
        Inl e \<Rightarrow> Inl e
      | Inr None \<Rightarrow> Inr ()
      | Inr (Some t) \<Rightarrow>
          if \<not> truthy t then Inr ()
          else (case py_get t ''status'' of
                  Inl e \<Rightarrow> Inl e
                | Inr st \<Rightarrow>
                    if st = JStr ''failed''
                    then (case py_get t ''error'' of
                            Inl e \<Rightarrow> Inl e
                          | Inr m \<Rightarrow> Inl (RuntimeError (py_or m (JStr ''Generation failed''))))
                    else Inr ()))"

text \<open>
  The test \<^verbatim>\<open>status != 200 or not resp.get("success")\<close> (the right operand is only
  evaluated when the status is 200) and the exception of
  \<^verbatim>\<open>raise RuntimeError(resp.get("error") or fallback)\<close>, which three functions share.
\<close>

definition envelope_failed :: "int \<Rightarrow> json \<Rightarrow> error + bool" where
  "envelope_failed status resp =
     (if status \<noteq> 200 then Inr True
      else (case py_get resp ''success'' of Inl e \<Rightarrow> Inl e | Inr s \<Rightarrow> Inr (\<not> truthy s)))"

definition error_or :: "json \<Rightarrow> string \<Rightarrow> error" where
  "error_or resp fallback =
     (case py_get resp ''error'' of
        Inl e \<Rightarrow> e
      | Inr m \<Rightarrow> RuntimeError (py_or m (JStr fallback)))"

definition create_generation ::
  "pylib \<Rightarrow> net \<Rightarrow> world \<Rightarrow> string \<Rightarrow> string \<Rightarrow> string \<Rightarrow> (error + ObjectMetadata) \<times> world" where
  "create_generation L N w object_name object_description model =
     (let version = make_version L N;
          (r, w1) = http_json L N w ''POST'' (API_BASE_URL @ ''/generations'')
                      (Some (JObj [(''version'', JStr version),
                                   (''languageModel'', JStr model),
                                   (''props'', JObj [(''object_name'', JStr object_name),
                                                     (''object_description'', JStr object_description)])]))
      in case r of
           Inl e \<Rightarrow> (Inl e, w1)
         | Inr (status, resp) \<Rightarrow>
             (case envelope_failed status resp of
                Inl e \<Rightarrow> (Inl e, w1)
              | Inr True \<Rightarrow> (Inl (error_or resp (''Failed to create generation: '' @ py_str L resp)), w1)
              | Inr False \<Rightarrow>
                  (case py_getitem resp ''data'' of
                     Inl e \<Rightarrow> (Inl e, w1)
                   | Inr d \<Rightarrow>
                       (case py_getitem d ''id'' of
                          Inl e \<Rightarrow> (Inl e, w1)
                        | Inr (JStr task_id) \<Rightarrow>
                            (Inr \<lparr>meta_id = task_id, meta_version = version,
                                  meta_name = object_name,
                                  meta_description = object_description\<rparr>, w1)
                        | Inr _ \<Rightarrow> (Inl (TypeError ''id is not string''), w1)))))"

subsection \<open>The long-poll loop\<close>

datatype iteration = Continue | Finished "error + json"

text \<open>
  One pass through the body of \<^verbatim>\<open>while True\<close>: the deadline check
  (\<open>deadline_passed\<close>), the wait request to \<open>wait_url\<close>, and the decision on the
  response. \<open>Continue\<close> is \<^verbatim>\<open>continue\<close>; \<open>Finished\<close> is a \<^verbatim>\<open>return\<close> or a \<^verbatim>\<open>raise\<close>.
\<close>

definition deadline_passed :: "rat option \<Rightarrow> world \<Rightarrow> bool" where
  "deadline_passed deadline w = (case deadline of None \<Rightarrow> False | Some d \<Rightarrow> now w > d)"

definition wait_url :: "string \<Rightarrow> int \<Rightarrow> string" where
  "wait_url task_id per_request_timeout_sec =
     API_BASE_URL @ ''/objects/'' @ task_id @ ''?wait=true&timeout_sec=''
       @ str_int per_request_timeout_sec"

definition poll_once ::
  "pylib \<Rightarrow> net \<Rightarrow> string \<Rightarrow> string \<Rightarrow> int \<Rightarrow> int option \<Rightarrow> rat option \<Rightarrow> world
     \<Rightarrow> iteration \<times> world" where
  "poll_once L N task_id version per_request_timeout_sec overall_timeout_sec deadline w =
     (if deadline_passed deadline w
      then (Finished (Inl (TimeoutError
              (''Overall timeout reached ('' @ fmt_opt_int overall_timeout_sec @ ''s)''))), w)
      else
        (let url = wait_url task_id per_request_timeout_sec;
             (r, w1) = http_json L N w ''GET'' url None
         in case r of
              Inl e \<Rightarrow> (Finished (Inl e), w1)
            | Inr (status, resp) \<Rightarrow>
                if status = 404 then (Finished (Inl (error_or resp ''Object not found'')), w1)
                else
                  (case envelope_failed status resp of
                     Inl e \<Rightarrow> (Finished (Inl e), w1)
                   | Inr True \<Rightarrow>
                       (Finished (Inl (error_or resp (''Wait failed: '' @ py_str L resp))), w1)
                   | Inr False \<Rightarrow>
                       (case py_getitem resp ''data'' of
                          Inl e \<Rightarrow> (Finished (Inl e), w1)
                        | Inr state \<Rightarrow>
                            (case get_version_status state version of
                               Inl e \<Rightarrow> (Finished (Inl e), w1)
                             | Inr None \<Rightarrow> (Continue, sleep (1 / 10) w1)
                             | Inr (Some st) \<Rightarrow>
                                 if st = JStr ''processing'' then (Continue, w1)
                                 else if st = JStr ''failed'' then
                                   (case raise_if_failed state version of
                                      Inl e \<Rightarrow> (Finished (Inl e), w1)
                                    | Inr u \<Rightarrow>
                                        (Finished (Inl (RuntimeError (JStr ''Generation failed''))), w1))
                                 else (Finished (Inr state), w1))))))"

partial_function (option) poll_loop ::
  "pylib \<Rightarrow> net \<Rightarrow> string \<Rightarrow> string \<Rightarrow> int \<Rightarrow> int option \<Rightarrow> rat option \<Rightarrow> world
     \<Rightarrow> ((error + json) \<times> world) option" where
  "poll_loop L N task_id version per_request_timeout_sec overall_timeout_sec deadline w =
     (case poll_once L N task_id version per_request_timeout_sec overall_timeout_sec deadline w of
        (Continue, w') \<Rightarrow>
          poll_loop L N task_id version per_request_timeout_sec overall_timeout_sec deadline w'
      | (Finished r, w') \<Rightarrow> Some (r, w'))"

definition wait_until_version_final ::
  "pylib \<Rightarrow> net \<Rightarrow> world \<Rightarrow> string \<Rightarrow> string \<Rightarrow> int \<Rightarrow> int option
     \<Rightarrow> ((error + json) \<times> world) option" where
  "wait_until_version_final L N w task_id version per_request_timeout_sec overall_timeout_sec =
     (let started_at = now w;
          deadline = (case overall_timeout_sec of
                        None \<Rightarrow> None
                      | Some t \<Rightarrow> Some (started_at + of_int t))
      in poll_loop L N task_id version per_request_timeout_sec overall_timeout_sec deadline w)"

subsection \<open>The remaining steps and the script\<close>

definition get_object_content_glb ::
  "pylib \<Rightarrow> net \<Rightarrow> world \<Rightarrow> string \<Rightarrow> string \<Rightarrow> (error + (bytes \<times> string option)) \<times> world" where
  "get_object_content_glb L N w task_id version =
     http_bytes_with_content_type L N w ''GET''
       (API_BASE_URL @ ''/objects/'' @ task_id @ ''/versions/'' @ version @ ''/content'')"

definition debug_add_object_to_rooms ::
  "pylib \<Rightarrow> net \<Rightarrow> world \<Rightarrow> json \<Rightarrow> (error + unit) \<times> world" where
  "debug_add_object_to_rooms L N w payload =
     (let (r, w1) = http_json L N w ''POST'' (API_BASE_URL @ ''/_debug_add_prog_obj_rooms'')
                      (Some payload)
      in case r of
           Inl e \<Rightarrow> (Inl e, w1)
         | Inr (status, resp) \<Rightarrow>
             (case envelope_failed status resp of
                Inl e \<Rightarrow> (Inl e, w1)
              | Inr True \<Rightarrow> (Inl (error_or resp (''debug add failed: '' @ py_str L resp)), w1)
              | Inr False \<Rightarrow> (Inr (), w1)))"

definition DEFAULT_WAIT_TIMEOUT_SEC :: int where
  "DEFAULT_WAIT_TIMEOUT_SEC = 30"

definition DEFAULT_OVERALL_WAIT_TIMEOUT_SEC :: int where
  "DEFAULT_OVERALL_WAIT_TIMEOUT_SEC = 10 * 60"

text \<open>
  \<^verbatim>\<open>main\<close>, with the two texts it sends (a name and a description, fixed in the script)
  as arguments. An exception of any step ends the script there.
\<close>

definition main ::
  "pylib \<Rightarrow> net \<Rightarrow> world \<Rightarrow> string \<Rightarrow> string \<Rightarrow> ((error + unit) \<times> world) option" where
  "main L N w object_name object_description =
     (case create_generation L N w object_name object_description ''gemini-3-flash-preview'' of
        (Inl e, w1) \<Rightarrow> Some (Inl e, w1)
      | (Inr obj, w1) \<Rightarrow>
          (case wait_until_version_final L N w1 (meta_id obj) (meta_version obj)
                  DEFAULT_WAIT_TIMEOUT_SEC (Some DEFAULT_OVERALL_WAIT_TIMEOUT_SEC) of
             None \<Rightarrow> None
           | Some (Inl e, w2) \<Rightarrow> Some (Inl e, w2)
           | Some (Inr state, w2) \<Rightarrow>
               (case get_object_content_glb L N w2 (meta_id obj) (meta_version obj) of
                  (Inl e, w3) \<Rightarrow> Some (Inl e, w3)
                | (Inr (glb, content_type), w3) \<Rightarrow>
                    Some (debug_add_object_to_rooms L N w3
                      (JObj [(''props'', JObj [(''object_name'', JStr (meta_name obj)),
                                               (''object_description'', JStr (meta_description obj))]),
                             (''url'', JStr (API_BASE_URL @ ''/objects/'' @ meta_id obj
                                              @ ''/versions/'' @ meta_version obj @ ''/content''))])))))"

subsection \<open>Responses, as the properties speak of them\<close>

text \<open>
  \<open>ok_envelope resp state\<close>: the response body is an envelope (a JSON object) whose success
  flag is true and whose \<^verbatim>\<open>data\<close> is \<open>state\<close>.
  \<open>delivers L N k state\<close>: the k-th call of \<^verbatim>\<open>urlopen\<close> is answered with HTTP status 200 and
  such an envelope.
  \<open>task_status state version st\<close>: the task of \<open>version\<close> in \<open>state\<close>, as
  \<open>get_version_task\<close> finds it, has the status entry \<open>st\<close> (\<open>JNull\<close> when it has none).
\<close>

definition ok_envelope :: "json \<Rightarrow> json \<Rightarrow> bool" where
  "ok_envelope resp state =
     (case resp of
        JObj d \<Rightarrow>
          (case map_of d ''success'' of None \<Rightarrow> False | Some s \<Rightarrow> truthy s)
          \<and> map_of d ''data'' = Some state
      | _ \<Rightarrow> False)"

definition delivers :: "pylib \<Rightarrow> net \<Rightarrow> nat \<Rightarrow> json \<Rightarrow> bool" where
  "delivers L N k state =
     (case sync_http_json L (urlopen N k) of
        Inl e \<Rightarrow> False
      | Inr (status, resp) \<Rightarrow> status = 200 \<and> ok_envelope resp state)"

definition task_status :: "json \<Rightarrow> string \<Rightarrow> json \<Rightarrow> bool" where
  "task_status state version st =
     (case get_version_task state version of
        Inr (Some t) \<Rightarrow> py_get t ''status'' = Inr st
      | _ \<Rightarrow> False)"

text \<open>
  The worlds in which a run of the loop stands at the top of \<^verbatim>\<open>while True\<close>: the world
  \<open>w0\<close> it starts in, and every world a \<^verbatim>\<open>continue\<close> leads to.
\<close>

inductive loop_head ::
  "pylib \<Rightarrow> net \<Rightarrow> string \<Rightarrow> string \<Rightarrow> int \<Rightarrow> int option \<Rightarrow> rat option \<Rightarrow> world \<Rightarrow> world \<Rightarrow> bool"
  for L N task_id version per_request_timeout_sec overall_timeout_sec deadline w0
where
  first: "loop_head L N task_id version per_request_timeout_sec overall_timeout_sec deadline w0 w0"
| again:
    "loop_head L N task_id version per_request_timeout_sec overall_timeout_sec deadline w0 w \<Longrightarrow>
     poll_once L N task_id version per_request_timeout_sec overall_timeout_sec deadline w
       = (Continue, w') \<Longrightarrow>
     loop_head L N task_id version per_request_timeout_sec overall_timeout_sec deadline w0 w'"

code_pred loop_head .

text \<open>
  \<open>run_deadline w0 t\<close> is the deadline that \<^verbatim>\<open>wait_until_version_final\<close>, called in world
  \<open>w0\<close> with overall timeout \<open>t\<close>, computes before the loop.
  \<open>wait_response L N w0 task_id version p t w status resp\<close>: during that call the loop
  stands at its top in world \<open>w\<close>, the deadline has not passed there, so the wait request is
  sent, and \<^verbatim>\<open>http_json\<close> returns \<open>(status, resp)\<close> for it.
\<close>

definition run_deadline :: "world \<Rightarrow> int option \<Rightarrow> rat option" where
  "run_deadline w0 overall_timeout_sec =
     (case overall_timeout_sec of None \<Rightarrow> None | Some t \<Rightarrow> Some (now w0 + of_int t))"

definition wait_response ::
  "pylib \<Rightarrow> net \<Rightarrow> world \<Rightarrow> string \<Rightarrow> string \<Rightarrow> int \<Rightarrow> int option \<Rightarrow> world \<Rightarrow> int \<Rightarrow> json \<Rightarrow> bool" where
  "wait_response L N w0 task_id version per_request_timeout_sec overall_timeout_sec w status resp \<longleftrightarrow>
     loop_head L N task_id version per_request_timeout_sec overall_timeout_sec
       (run_deadline w0 overall_timeout_sec) w0 w
     \<and> \<not> deadline_passed (run_deadline w0 overall_timeout_sec) w
     \<and> sync_http_json L (urlopen N (length (sent w))) = Inr (status, resp)"

text \<open>
  \<open>create_request\<close> is the request that \<^verbatim>\<open>create_generation\<close> sends, and \<open>data_id resp\<close> is
  the outcome of the expression \<^verbatim>\<open>resp["data"]["id"]\<close>.
\<close>

definition create_request :: "pylib \<Rightarrow> net \<Rightarrow> string \<Rightarrow> string \<Rightarrow> string \<Rightarrow> request" where
  "create_request L N object_name object_description model =
     (''POST'', API_BASE_URL @ ''/generations'',
      Some (JObj [(''version'', JStr (make_version L N)),
                  (''languageModel'', JStr model),
                  (''props'', JObj [(''object_name'', JStr object_name),
                                    (''object_description'', JStr object_description)])]))"

definition data_id :: "json \<Rightarrow> error + json" where
  "data_id resp =
     (case py_getitem resp ''data'' of Inl e \<Rightarrow> Inl e | Inr d \<Rightarrow> py_getitem d ''id'')"

subsection \<open>An example library and example servers\<close>

text \<open>
  A library that decodes ASCII, whose \<^verbatim>\<open>json.loads\<close> knows the documents of
  \<open>ex_documents\<close> and rejects every other text, and whose float product is the exact
  one (as the machine's is for the clock value 1 of the example servers). The servers
  below answer with these documents; the version token of the examples is \<^verbatim>\<open>v1\<close>.
\<close>

definition ex_state :: "json list \<Rightarrow> json" where
  "ex_state ts = JObj [(''tasks'', JArr ts)]"

definition ex_task :: "string \<Rightarrow> json" where
  "ex_task st = JObj [(''version'', JStr ''v1''), (''status'', JStr st)]"

definition ex_task_error :: "string \<Rightarrow> json" where
  "ex_task_error m = JObj [(''version'', JStr ''v1''), (''status'', JStr ''failed''), (''error'', JStr m)]"

definition ex_envelope :: "json \<Rightarrow> json" where
  "ex_envelope state = JObj [(''success'', JBool True), (''data'', state)]"

definition ex_documents :: "(string \<times> json) list" where
  \<open>ex_documents =
     [(''{"data": {"tasks": [{"version": "v1", "status": "processing"}]}, "success": true}'',
         ex_envelope (ex_state [ex_task ''processing''])),
      (''{"data": {"tasks": [{"version": "v1", "status": "succeeded"}]}, "success": true}'',
         ex_envelope (ex_state [ex_task ''succeeded''])),
      (''{"data": {"tasks": [{"version": "v1", "status": "queued"}]}, "success": true}'',
         ex_envelope (ex_state [ex_task ''queued''])),
      (''{"data": {"tasks": [{"version": "v1", "status": "failed", "error": "X"}]}, "success": true}'',
         ex_envelope (ex_state [ex_task_error ''X''])),
      (''{"data": {"tasks": [{"version": "v1", "status": "failed", "error": ""}]}, "success": true}'',
         ex_envelope (ex_state [ex_task_error []])),
      (''{"data": {"tasks": []}, "success": true}'',
         ex_envelope (ex_state [])),
      (''{"success": false, "error": "no such object"}'',
         JObj [(''success'', JBool False), (''error'', JStr ''no such object'')]),
      (''{"success": true, "data": {"id": "obj1"}}'',
         ex_envelope (JObj [(''id'', JStr ''obj1'')])),
      (''{"success": true, "data": {"id": 7}}'',
         ex_envelope (JObj [(''id'', JInt 7)])),
      (''{"success": true, "data": {}}'',
         ex_envelope (JObj [])),
      (''{"error": "boom"}'',
         JObj [(''error'', JStr ''boom'')]),
      (''null'', JNull),
      (''[]'', JArr [])]\<close>

definition lib0 :: pylib where
  "lib0 = \<lparr>decode_utf8 = Some,
           decode_utf8_replace = (\<lambda>raw. raw),
           json_loads = map_of ex_documents,
           py_str = (\<lambda>j. ''<json>''),
           bytes_repr = (\<lambda>raw. ''b'' @ [CHR 0x27] @ raw @ [CHR 0x27]),
           float_mul = (\<lambda>x y. x * y)\<rparr>"

definition world0 :: world where
  "world0 = \<lparr>now = 0, sent = [], slept = []\<rparr>"

text \<open>A server that answers every call with the same result after \<open>l\<close> seconds.\<close>

definition net_const :: "urlopen_result \<Rightarrow> rat \<Rightarrow> net" where
  "net_const r l = \<lparr>urlopen = (\<lambda>k. r), latency = (\<lambda>k. l), time_time = 1\<rparr>"

text \<open>A server that reports processing twice and then succeeded, one second per call.\<close>

definition net_three :: net where
  \<open>net_three =
     \<lparr>urlopen = (\<lambda>k. if k < 2
          then Response 200
                 ''{"data": {"tasks": [{"version": "v1", "status": "processing"}]}, "success": true}''
                 None
          else Response 200
                 ''{"data": {"tasks": [{"version": "v1", "status": "succeeded"}]}, "success": true}''
                 None),
      latency = (\<lambda>k. 1), time_time = 1\<rparr>\<close>

text \<open>
  A server that reports processing after one second and answers every later call with
  404 after 700 seconds.
\<close>

definition net_gone :: net where
  \<open>net_gone =
     \<lparr>urlopen = (\<lambda>k. if k = 0
          then Response 200
                 ''{"data": {"tasks": [{"version": "v1", "status": "processing"}]}, "success": true}''
                 None
          else HTTPError 404 ''{"success": false, "error": "no such object"}''),
      latency = (\<lambda>k. if k = 0 then 1 else 700), time_time = 1\<rparr>\<close>

section \<open>Properties\<close>

subsection \<open>Responses\<close>

lemma ok_envelope_iff:
  "ok_envelope resp state \<longleftrightarrow>
     (\<exists>d s. resp = JObj d \<and> map_of d ''success'' = Some s \<and> truthy s
          \<and> map_of d ''data'' = Some state)"
  by (cases resp) (auto simp add: ok_envelope_def split: option.splits)

lemma delivers_iff:
  "delivers L N k state \<longleftrightarrow>
     (\<exists>resp. sync_http_json L (urlopen N k) = Inr (200, resp) \<and> ok_envelope resp state)"
  by (auto simp add: delivers_def split: sum.splits)

lemma task_status_iff:
  "task_status state version st \<longleftrightarrow>
     (\<exists>t. get_version_task state version = Inr (Some t) \<and> py_get t ''status'' = Inr st)"
  by (auto simp add: task_status_def split: sum.splits option.splits)

subsection \<open>Unfolding the loop\<close>

lemma poll_loop_Continue:
  "poll_once L N tid v pr ov dl w = (Continue, w') \<Longrightarrow>
   poll_loop L N tid v pr ov dl w = poll_loop L N tid v pr ov dl w'"
  by (subst poll_loop.simps) simp

lemma poll_loop_Finished:
  "poll_once L N tid v pr ov dl w = (Finished r, w') \<Longrightarrow>
   poll_loop L N tid v pr ov dl w = Some (r, w')"
  by (subst poll_loop.simps) simp

lemma loop_head_poll_loop:
  "loop_head L N tid v pr ov dl w0 w \<Longrightarrow>
   poll_loop L N tid v pr ov dl w0 = poll_loop L N tid v pr ov dl w"
  by (induction rule: loop_head.induct) (simp_all add: poll_loop_Continue)

lemma wait_until_version_final_poll_loop:
  "wait_until_version_final L N w tid v pr ov = poll_loop L N tid v pr ov (run_deadline w ov) w"
  by (simp add: wait_until_version_final_def run_deadline_def)

lemma wait_response_poll_loop:
  assumes "wait_response L N w0 tid v pr ov w status resp"
  shows "wait_until_version_final L N w0 tid v pr ov
           = poll_loop L N tid v pr ov (run_deadline w0 ov) w"
  using assms
  by (simp add: wait_response_def wait_until_version_final_poll_loop loop_head_poll_loop)

subsection \<open>Reading the task of a version\<close>

lemma py_get_version_eq:
  "py_get t ''version'' = Inr (JStr v) \<Longrightarrow> \<exists>d. t = JObj d \<and> map_of d ''version'' = Some (JStr v)"
  by (cases t) (auto split: option.splits)

lemma find_task_Some:
  "find_task ts v = Inr (Some t) \<Longrightarrow> \<exists>d. t = JObj d \<and> map_of d ''version'' = Some (JStr v)"
proof (induction ts)
  case Nil
  then show ?case by simp
next
  case (Cons a ts)
  show ?case
  proof (cases "py_get a ''version''")
    case (Inl e)
    with Cons.prems show ?thesis by simp
  next
    case (Inr x)
    show ?thesis
    proof (cases "x = JStr v")
      case True
      with Inr Cons.prems have "t = a" by simp
      with Inr True show ?thesis by (simp add: py_get_version_eq)
    next
      case False
      with Inr Cons.prems have "find_task ts v = Inr (Some t)" by simp
      then show ?thesis by (rule Cons.IH)
    qed
  qed
qed

lemma get_version_task_Some:
  assumes "get_version_task state v = Inr (Some t)"
  shows "\<exists>d. t = JObj d \<and> map_of d ''version'' = Some (JStr v)"
proof -
  from assms obtain ts where "find_task ts v = Inr (Some t)"
    by (auto simp: get_version_task_def split: sum.splits)
  then show ?thesis by (rule find_task_Some)
qed

lemma get_version_task_truthy:
  assumes "get_version_task state v = Inr (Some t)"
  shows "truthy t"
proof -
  from get_version_task_Some [OF assms]
  obtain d where "t = JObj d" and "map_of d ''version'' = Some (JStr v)"
    by blast
  then show ?thesis by (cases d) auto
qed

lemma get_version_status_absent:
  "get_version_task state v = Inr None \<Longrightarrow> get_version_status state v = Inr None"
  by (simp add: get_version_status_def)

lemma get_version_status_found:
  assumes "get_version_task state v = Inr (Some t)" and "py_get t ''status'' = Inr st"
  shows "get_version_status state v =
           Inr (if st = JStr ''processing'' \<or> st = JStr ''succeeded'' \<or> st = JStr ''failed''
                then Some st else None)"
  using assms get_version_task_truthy [OF assms(1)]
  by (simp add: get_version_status_def)

lemma task_status_recognized:
  assumes "task_status state v st"
    and "st = JStr ''processing'' \<or> st = JStr ''succeeded'' \<or> st = JStr ''failed''"
  shows "get_version_status state v = Inr (Some st)"
proof -
  from assms(1) obtain t where "get_version_task state v = Inr (Some t)"
    and "py_get t ''status'' = Inr st"
    unfolding task_status_iff by blast
  then show ?thesis using assms(2) by (simp add: get_version_status_found)
qed

lemma raise_if_failed_found:
  assumes "get_version_task state v = Inr (Some t)"
    and "py_get t ''status'' = Inr (JStr ''failed'')"
    and "py_get t ''error'' = Inr m"
  shows "raise_if_failed state v = Inl (RuntimeError (py_or m (JStr ''Generation failed'')))"
  using assms get_version_task_truthy [OF assms(1)]
  by (simp add: raise_if_failed_def)

subsection \<open>One pass through the loop body\<close>

lemma envelope_ok:
  "map_of d ''success'' = Some s \<Longrightarrow> truthy s \<Longrightarrow> envelope_failed 200 (JObj d) = Inr False"
  by (simp add: envelope_failed_def)

lemma poll_once_expired:
  "deadline_passed dl w \<Longrightarrow>
   poll_once L N tid v pr ov dl w =
     (Finished (Inl (TimeoutError (''Overall timeout reached ('' @ fmt_opt_int ov @ ''s)''))), w)"
  by (simp add: poll_once_def)

lemma poll_once_reply:
  assumes "\<not> deadline_passed dl w"
    and "sync_http_json L (urlopen N (length (sent w))) = Inr (status, resp)"
  shows "poll_once L N tid v pr ov dl w =
     (let w1 = issue N w (''GET'', wait_url tid pr, None)
      in if status = 404 then (Finished (Inl (error_or resp ''Object not found'')), w1)
         else
           (case envelope_failed status resp of
              Inl e \<Rightarrow> (Finished (Inl e), w1)
            | Inr True \<Rightarrow> (Finished (Inl (error_or resp (''Wait failed: '' @ py_str L resp))), w1)
            | Inr False \<Rightarrow>
                (case py_getitem resp ''data'' of
                   Inl e \<Rightarrow> (Finished (Inl e), w1)
                 | Inr state \<Rightarrow>
                     (case get_version_status state v of
                        Inl e \<Rightarrow> (Finished (Inl e), w1)
                      | Inr None \<Rightarrow> (Continue, sleep (1 / 10) w1)
                      | Inr (Some st) \<Rightarrow>
                          if st = JStr ''processing'' then (Continue, w1)
                          else if st = JStr ''failed'' then
                            (case raise_if_failed state v of
                               Inl e \<Rightarrow> (Finished (Inl e), w1)
                             | Inr u \<Rightarrow> (Finished (Inl (RuntimeError (JStr ''Generation failed''))), w1))
                          else (Finished (Inr state), w1)))))"
  using assms by (simp add: poll_once_def http_json_def Let_def)

lemma poll_once_ok_envelope:
  assumes "\<not> deadline_passed dl w"
    and "sync_http_json L (urlopen N (length (sent w))) = Inr (200, resp)"
    and "ok_envelope resp state"
  shows "poll_once L N tid v pr ov dl w =
     (let w1 = issue N w (''GET'', wait_url tid pr, None)
      in case get_version_status state v of
           Inl e \<Rightarrow> (Finished (Inl e), w1)
         | Inr None \<Rightarrow> (Continue, sleep (1 / 10) w1)
         | Inr (Some st) \<Rightarrow>
             if st = JStr ''processing'' then (Continue, w1)
             else if st = JStr ''failed'' then
               (case raise_if_failed state v of
                  Inl e \<Rightarrow> (Finished (Inl e), w1)
                | Inr u \<Rightarrow> (Finished (Inl (RuntimeError (JStr ''Generation failed''))), w1))
             else (Finished (Inr state), w1))"
proof -
  from assms(3) obtain d s where "resp = JObj d"
    and "map_of d ''success'' = Some s" and "truthy s" and "map_of d ''data'' = Some state"
    unfolding ok_envelope_iff by blast
  then show ?thesis
    unfolding poll_once_reply [OF assms(1) assms(2)]
    by (simp add: envelope_ok)
qed

lemma poll_once_delivers:
  assumes "\<not> deadline_passed dl w" and "delivers L N (length (sent w)) state"
  shows "poll_once L N tid v pr ov dl w =
     (let w1 = issue N w (''GET'', wait_url tid pr, None)
      in case get_version_status state v of
           Inl e \<Rightarrow> (Finished (Inl e), w1)
         | Inr None \<Rightarrow> (Continue, sleep (1 / 10) w1)
         | Inr (Some st) \<Rightarrow>
             if st = JStr ''processing'' then (Continue, w1)
             else if st = JStr ''failed'' then
               (case raise_if_failed state v of
                  Inl e \<Rightarrow> (Finished (Inl e), w1)
                | Inr u \<Rightarrow> (Finished (Inl (RuntimeError (JStr ''Generation failed''))), w1))
             else (Finished (Inr state), w1))"
proof -
  from assms(2) obtain resp
    where "sync_http_json L (urlopen N (length (sent w))) = Inr (200, resp)"
      and "ok_envelope resp state"
    unfolding delivers_iff by blast
  then show ?thesis by (rule poll_once_ok_envelope [OF assms(1)])
qed

subsection \<open>Task lists made of records\<close>

text \<open>
  When the \<^verbatim>\<open>tasks\<close> entry of the state is a list of JSON objects, the task of a version
  is the first object of the list whose \<^verbatim>\<open>version\<close> entry is that version; when the entry is
  missing, null or empty, there is none.
\<close>

lemma find_task_records:
  assumes "\<forall>t\<in>set ts. \<exists>d. t = JObj d"
  shows "find_task ts v = Inr (find (\<lambda>t. py_get t ''version'' = Inr (JStr v)) ts)"
  using assms by (induction ts) auto

lemma get_version_task_records:
  assumes "py_getitem state ''tasks'' = Inr (JArr ts)" and "\<forall>t\<in>set ts. \<exists>d. t = JObj d"
  shows "get_version_task state v = Inr (find (\<lambda>t. py_get t ''version'' = Inr (JStr v)) ts)"
proof -
  from assms(1) obtain sd where "state = JObj sd" and "map_of sd ''tasks'' = Some (JArr ts)"
    by (cases state) (auto split: option.splits)
  then show ?thesis
    using find_task_records [OF assms(2)]
    by (cases ts) (simp_all add: get_version_task_def py_or_def)
qed

lemma get_version_task_no_tasks:
  assumes "py_get state ''tasks'' = Inr tasks" and "\<not> truthy tasks"
  shows "get_version_task state v = Inr None"
  using assms by (simp add: get_version_task_def py_or_def)

subsection \<open>Passes through the loop body, continued\<close>

lemma py_get_not_object:
  "\<forall>d. x \<noteq> JObj d \<Longrightarrow> py_get x k = Inl (no_attribute x ''get'')"
  by (cases x) simp_all

lemma error_or_not_object:
  "\<forall>d. resp \<noteq> JObj d \<Longrightarrow> error_or resp fallback = no_attribute resp ''get''"
  by (simp add: error_or_def py_get_not_object)

lemma error_or_object:
  "py_get resp ''error'' = Inr m \<Longrightarrow>
   error_or resp fallback = RuntimeError (py_or m (JStr fallback))"
  by (simp add: error_or_def)

lemma deadline_passed_later:
  "deadline_passed dl w \<Longrightarrow> now w \<le> now w' \<Longrightarrow> deadline_passed dl w'"
  by (cases dl) (simp_all add: deadline_passed_def)

lemma issue_simps:
  "now (issue N w rq) = now w + latency N (length (sent w))"
  "sent (issue N w rq) = sent w @ [rq]"
  "slept (issue N w rq) = slept w"
  "length (sent (issue N w rq)) = Suc (length (sent w))"
  by (simp_all add: issue_def)

lemma sleep_simps:
  "now (sleep d w) = now w + d"
  "sent (sleep d w) = sent w"
  "slept (sleep d w) = slept w @ [d]"
  by (simp_all add: sleep_def)

lemma poll_once_processing:
  assumes "\<not> deadline_passed dl w" and "delivers L N (length (sent w)) state"
    and "task_status state v (JStr ''processing'')"
  shows "poll_once L N tid v pr ov dl w = (Continue, issue N w (''GET'', wait_url tid pr, None))"
  using task_status_recognized [OF assms(3)]
  by (simp add: poll_once_delivers [OF assms(1,2)])

lemma poll_once_succeeded:
  assumes "\<not> deadline_passed dl w" and "delivers L N (length (sent w)) state"
    and "task_status state v (JStr ''succeeded'')"
  shows "poll_once L N tid v pr ov dl w
           = (Finished (Inr state), issue N w (''GET'', wait_url tid pr, None))"
  using task_status_recognized [OF assms(3)]
  by (simp add: poll_once_delivers [OF assms(1,2)])

lemma poll_once_not_visible:
  assumes "\<not> deadline_passed dl w" and "delivers L N (length (sent w)) state"
    and "get_version_status state v = Inr None"
  shows "poll_once L N tid v pr ov dl w
           = (Continue, sleep (1 / 10) (issue N w (''GET'', wait_url tid pr, None)))"
  using assms(3) by (simp add: poll_once_delivers [OF assms(1,2)])

lemma wait_response_first:
  assumes "\<forall>T. ov = Some T \<longrightarrow> 0 \<le> T"
    and "sync_http_json L (urlopen N (length (sent w0))) = Inr (status, resp)"
  shows "wait_response L N w0 tid v pr ov w0 status resp"
  using assms
  by (cases ov) (simp_all add: wait_response_def loop_head.first run_deadline_def deadline_passed_def)

subsection \<open>The loop as a whole\<close>

text \<open>
  While every response is successful and shows no recognized status for the version, the
  loop ends by the deadline when there is one, and never ends when there is none.
\<close>

lemma poll_loop_times_out:
  assumes lat: "\<forall>k\<ge>k0. 0 \<le> latency N k"
    and abs: "\<forall>k\<ge>k0. \<exists>state. delivers L N k state \<and> get_version_status state v = Inr None"
  shows "k0 \<le> length (sent w) \<Longrightarrow> d - now w < of_nat n / 10 \<Longrightarrow>
         \<exists>w'. poll_loop L N tid v pr ov (Some d) w
                 = Some (Inl (TimeoutError (''Overall timeout reached ('' @ fmt_opt_int ov @ ''s)'')), w')
              \<and> d < now w'"
proof (induction n arbitrary: w)
  case 0
  then have "deadline_passed (Some d) w"
    by (simp add: deadline_passed_def)
  then have "poll_loop L N tid v pr ov (Some d) w
               = Some (Inl (TimeoutError (''Overall timeout reached ('' @ fmt_opt_int ov @ ''s)'')), w)"
    by (simp add: poll_loop_Finished poll_once_expired)
  with 0 show ?case by simp
next
  case (Suc n)
  show ?case
  proof (cases "deadline_passed (Some d) w")
    case True
    then have "poll_loop L N tid v pr ov (Some d) w
                 = Some (Inl (TimeoutError (''Overall timeout reached ('' @ fmt_opt_int ov @ ''s)'')), w)"
      by (simp add: poll_loop_Finished poll_once_expired)
    with True show ?thesis by (simp add: deadline_passed_def)
  next
    case False
    define w2 where "w2 = sleep (1 / 10) (issue N w (''GET'', wait_url tid pr, None))"
    from abs Suc.prems(1) obtain state
      where "delivers L N (length (sent w)) state" and "get_version_status state v = Inr None"
      by blast
    with False have "poll_once L N tid v pr ov (Some d) w = (Continue, w2)"
      unfolding w2_def by (rule poll_once_not_visible)
    then have step: "poll_loop L N tid v pr ov (Some d) w = poll_loop L N tid v pr ov (Some d) w2"
      by (rule poll_loop_Continue)
    have "0 \<le> latency N (length (sent w))"
      using lat Suc.prems(1) by blast
    then have "now w + 1 / 10 \<le> now w2"
      by (simp add: w2_def sleep_simps issue_simps)
    moreover have "d - now w < of_nat n / 10 + 1 / 10"
      using Suc.prems(2) by (simp add: add_divide_distrib)
    ultimately have "d - now w2 < of_nat n / 10"
      by linarith
    moreover have "k0 \<le> length (sent w2)"
      using Suc.prems(1) by (simp add: w2_def sleep_simps issue_simps)
    ultimately show ?thesis
      unfolding step by (rule Suc.IH [rotated])
  qed
qed



subsection \<open>The examples\<close>

lemma ex_response:
  "map_of ex_documents body = Some j \<Longrightarrow>
   sync_http_json lib0 (Response 200 body ctype) = Inr (200, j)"
  by (simp add: sync_http_json_def read_json_bytes_def loads_utf8_def lib0_def)

lemma ex_error_response:
  "map_of ex_documents body = Some j \<Longrightarrow>
   sync_http_json lib0 (HTTPError code body) = Inr (code, j)"
  by (simp add: sync_http_json_def loads_utf8_def lib0_def)

lemma ex_ok_envelope: "ok_envelope (ex_envelope state) state"
  by (simp add: ok_envelope_iff ex_envelope_def)

lemma ex_task_found: "get_version_task (ex_state [ex_task st]) ''v1'' = Inr (Some (ex_task st))"
  by (simp add: get_version_task_def ex_state_def ex_task_def py_or_def)

lemma ex_task_error_found:
  "get_version_task (ex_state [ex_task_error m]) ''v1'' = Inr (Some (ex_task_error m))"
  by (simp add: get_version_task_def ex_state_def ex_task_error_def py_or_def)

lemma ex_task_absent: "get_version_task (ex_state []) ''v1'' = Inr None"
  by (simp add: get_version_task_def ex_state_def py_or_def)

lemma ex_task_status: "task_status (ex_state [ex_task st]) ''v1'' (JStr st)"
  by (simp add: task_status_iff ex_task_found) (simp add: ex_task_def)

lemma ex_delivers:
  "map_of ex_documents body = Some (ex_envelope state) \<Longrightarrow>
   delivers lib0 (net_const (Response 200 body ctype) l) k state"
  by (simp add: delivers_iff net_const_def ex_response ex_ok_envelope)

lemma net_three_processing:
  "k < 2 \<Longrightarrow> delivers lib0 net_three k (ex_state [ex_task ''processing''])"
  by (simp add: delivers_iff net_three_def ex_response ex_documents_def ex_ok_envelope)

lemma net_three_succeeded:
  "2 \<le> k \<Longrightarrow> delivers lib0 net_three k (ex_state [ex_task ''succeeded''])"
  by (simp add: delivers_iff net_three_def ex_response ex_documents_def ex_ok_envelope)

text \<open>The texts that the script formats.\<close>

lemma str_int_examples:
  "str_int 0 = ''0''" "str_int 600 = ''600''" "str_int (- 5) = ''-5''"
  by code_simp+

lemma py_int_examples:
  "py_int (17 / 10) = 1" "py_int (- 17 / 10) = - 1"
  by code_simp+

lemma wait_url_example:
  "wait_url ''obj1'' 30 = ''https://40001.cch137.com/obj-dsgn/objects/obj1?wait=true&timeout_sec=30''"
  by code_simp

lemma make_version_example:
  "make_version lib0 (net_const r l) = ''1000''"
  by (simp add: make_version_def net_const_def lib0_def py_int_def) code_simp

lemma no_attribute_example:
  "no_attribute JNull ''get''
     = AttributeError (CHR 0x27 # ''NoneType'' @ CHR 0x27 # '' object has no attribute ''
                         @ CHR 0x27 # ''get'' @ [CHR 0x27])"
  by (simp add: no_attribute_def py_quote_def)

subsection \<open>C1: processing, processing, succeeded\<close>

text \<open>
  Claim C1: when the first two wait responses of a run report the task of the version as
  processing and the third reports it as succeeded, \<^verbatim>\<open>wait_until_version_final\<close> returns the
  object state of the third response; it has sent exactly three wait requests, and it has
  not slept (the list \<open>slept\<close> is as before).

  A run has these three responses when the overall deadline, if there is one, has not
  passed at the three checks before the requests: the timeout is not negative and is not
  shorter than the first call or than the first two calls together.
\<close>

theorem three_polls_return_third_state:
  assumes k: "k = length (sent w)"
    and r0: "delivers L N k s0" "task_status s0 version (JStr ''processing'')"
    and r1: "delivers L N (k + 1) s1" "task_status s1 version (JStr ''processing'')"
    and r2: "delivers L N (k + 2) s2" "task_status s2 version (JStr ''succeeded'')"
    and t: "\<forall>T. overall = Some T \<longrightarrow>
              0 \<le> T \<and> latency N k \<le> of_int T \<and> latency N k + latency N (k + 1) \<le> of_int T"
  shows "wait_until_version_final L N w task_id version per_request overall
           = Some (Inr s2,
                   w\<lparr>now := now w + latency N k + latency N (k + 1) + latency N (k + 2),
                     sent := sent w @ replicate 3 (''GET'', wait_url task_id per_request, None)\<rparr>)"
proof -
  define rq :: request where "rq = (''GET'', wait_url task_id per_request, None)"
  define dl where "dl = run_deadline w overall"
  define w1 where "w1 = issue N w rq"
  define w2 where "w2 = issue N w1 rq"
  define w3 where "w3 = issue N w2 rq"
  have len: "length (sent w1) = k + 1" "length (sent w2) = k + 2"
    by (simp_all add: w1_def w2_def issue_simps k)
  have d0: "\<not> deadline_passed dl w"
    using t by (cases overall) (simp_all add: dl_def run_deadline_def deadline_passed_def)
  have d1: "\<not> deadline_passed dl w1"
    using t by (cases overall) (simp_all add: dl_def run_deadline_def deadline_passed_def w1_def issue_simps k)
  have d2: "\<not> deadline_passed dl w2"
    using t by (cases overall)
      (simp_all add: dl_def run_deadline_def deadline_passed_def w1_def w2_def issue_simps k)
  have p0: "poll_once L N task_id version per_request overall dl w = (Continue, w1)"
    unfolding w1_def rq_def using d0 r0 by (simp add: poll_once_processing k)
  have p1: "poll_once L N task_id version per_request overall dl w1 = (Continue, w2)"
    unfolding w2_def rq_def using d1 r1 by (simp add: poll_once_processing len)
  have p2: "poll_once L N task_id version per_request overall dl w2 = (Finished (Inr s2), w3)"
    unfolding w3_def rq_def using d2 r2 by (simp add: poll_once_succeeded len)
  have "wait_until_version_final L N w task_id version per_request overall = Some (Inr s2, w3)"
    by (simp add: wait_until_version_final_poll_loop dl_def [symmetric]
        poll_loop_Continue [OF p0] poll_loop_Continue [OF p1] poll_loop_Finished [OF p2])
  moreover have "w3 = w\<lparr>now := now w + latency N k + latency N (k + 1) + latency N (k + 2),
                          sent := sent w @ replicate 3 (''GET'', wait_url task_id per_request, None)\<rparr>"
    by (simp add: w3_def w2_def w1_def issue_def rq_def k numeral_3_eq_3)
  ultimately show ?thesis by simp
qed

theorem three_polls_return_third_state_witness:
  "wait_until_version_final lib0 net_three world0 ''obj1'' ''v1'' 30 (Some 600)
     = Some (Inr (ex_state [ex_task ''succeeded'']),
             \<lparr>now = 3, sent = replicate 3 (''GET'', wait_url ''obj1'' 30, None), slept = []\<rparr>)"
proof -
  have k: "0 = length (sent world0)"
    by (simp add: world0_def)
  have t: "\<forall>T. Some (600 :: int) = Some T \<longrightarrow>
             0 \<le> T \<and> latency net_three 0 \<le> of_int T
             \<and> latency net_three 0 + latency net_three (0 + 1) \<le> of_int T"
    by (simp add: net_three_def)
  from three_polls_return_third_state
    [OF k net_three_processing ex_task_status net_three_processing ex_task_status
      net_three_succeeded ex_task_status t, of "''obj1''" 30]
  show ?thesis
    by (simp add: world0_def net_three_def)
qed

subsection \<open>C2: a task that never shows up\<close>

text \<open>
  Claim C2: with a finite overall timeout, when every wait response is successful but
  never lists the task of the version, \<^verbatim>\<open>wait_until_version_final\<close> ends, and it ends by
  raising \<^verbatim>\<open>TimeoutError\<close>, at a moment when more than the overall timeout has elapsed; so
  it never returns normally. (Calls take no negative time.)
\<close>

theorem absent_task_times_out:
  assumes "\<forall>k\<ge>length (sent w). 0 \<le> latency N k"
    and "\<forall>k\<ge>length (sent w). \<exists>state. delivers L N k state \<and> get_version_task state version = Inr None"
  shows "\<exists>w'. wait_until_version_final L N w task_id version per_request (Some T)
                 = Some (Inl (TimeoutError (''Overall timeout reached ('' @ str_int T @ ''s)'')), w')
              \<and> now w + of_int T < now w'"
proof -
  have abs: "\<forall>k\<ge>length (sent w). \<exists>state. delivers L N k state \<and> get_version_status state version = Inr None"
    using assms(2) by (blast intro: get_version_status_absent)
  obtain n :: nat where "(of_int T :: rat) * 10 < of_nat n"
    using reals_Archimedean2 by blast
  then have "(now w + of_int T) - now w < of_nat n / 10"
    by simp
  from poll_loop_times_out [OF assms(1) abs order_refl this, of task_id per_request "Some T"]
  show ?thesis
    by (simp add: wait_until_version_final_poll_loop run_deadline_def fmt_opt_int_def)
qed

theorem absent_task_times_out_witness:
  \<open>\<exists>w'. wait_until_version_final lib0
            (net_const (Response 200 ''{"data": {"tasks": []}, "success": true}'' None) 40)
            world0 ''obj1'' ''v1'' 30 (Some 600)
          = Some (Inl (TimeoutError (''Overall timeout reached ('' @ str_int 600 @ ''s)'')), w')
        \<and> now world0 + of_int 600 < now w'\<close>
proof -
  let ?N = \<open>net_const (Response 200 ''{"data": {"tasks": []}, "success": true}'' None) 40\<close>
  have l: "\<forall>k\<ge>length (sent world0). 0 \<le> latency ?N k"
    by (simp add: net_const_def)
  have "delivers lib0 ?N k (ex_state [])" for k
    by (rule ex_delivers) (simp add: ex_documents_def)
  then have a: "\<forall>k\<ge>length (sent world0).
                  \<exists>state. delivers lib0 ?N k state \<and> get_version_task state ''v1'' = Inr None"
    using ex_task_absent by blast
  from absent_task_times_out [OF l a, of "''obj1''" 30 600]
  show ?thesis .
qed

subsection \<open>C3: a failed task\<close>

lemma poll_loop_failed:
  assumes "\<not> deadline_passed dl w"
    and "sync_http_json L (urlopen N (length (sent w))) = Inr (200, resp)"
    and "ok_envelope resp state"
    and "get_version_task state v = Inr (Some t)"
    and "py_get t ''status'' = Inr (JStr ''failed'')"
    and "py_get t ''error'' = Inr m"
  shows "poll_loop L N tid v pr ov dl w
           = Some (Inl (RuntimeError (py_or m (JStr ''Generation failed''))),
                   issue N w (''GET'', wait_url tid pr, None))"
proof -
  have "get_version_status state v = Inr (Some (JStr ''failed''))"
    using assms(4,5) by (simp add: get_version_status_found)
  moreover have "raise_if_failed state v
                   = Inl (RuntimeError (py_or m (JStr ''Generation failed'')))"
    using assms(4,5,6) by (rule raise_if_failed_found)
  ultimately show ?thesis
    by (simp add: poll_loop_Finished poll_once_ok_envelope [OF assms(1,2,3)])
qed

text \<open>
  Claim C3 says that the error raised for a failed task carries exactly the error message
  of the task record. It does not when that message is the empty string: the error then
  carries \<^verbatim>\<open>Generation failed\<close>.
\<close>

theorem empty_error_message_counterexample:
  \<open>py_get (ex_task_error []) ''error'' = Inr (JStr [])
   \<and> map_option fst
        (wait_until_version_final lib0
           (net_const (Response 200
              ''{"data": {"tasks": [{"version": "v1", "status": "failed", "error": ""}]}, "success": true}''
              None) 1)
           world0 ''obj1'' ''v1'' 30 None)
       = Some (Inl (RuntimeError (JStr ''Generation failed'')))\<close>
proof -
  let ?N = \<open>net_const (Response 200
              ''{"data": {"tasks": [{"version": "v1", "status": "failed", "error": ""}]}, "success": true}''
              None) 1\<close>
  have d: "\<not> deadline_passed (run_deadline world0 None) world0"
    by (simp add: run_deadline_def deadline_passed_def)
  have r: "sync_http_json lib0 (urlopen ?N (length (sent world0)))
             = Inr (200, ex_envelope (ex_state [ex_task_error []]))"
    by (simp add: net_const_def ex_response ex_documents_def)
  have "poll_loop lib0 ?N ''obj1'' ''v1'' 30 None (run_deadline world0 None) world0
          = Some (Inl (RuntimeError (py_or (JStr []) (JStr ''Generation failed''))),
                  issue ?N world0 (''GET'', wait_url ''obj1'' 30, None))"
    by (rule poll_loop_failed [OF d r ex_ok_envelope ex_task_error_found])
      (simp_all add: ex_task_error_def)
  then show ?thesis
    by (simp add: wait_until_version_final_poll_loop py_or_def ex_task_error_def)
qed

text \<open>
  Claim C3, amended: a wait response in which the task of the version has the status
  \<^verbatim>\<open>failed\<close> makes \<^verbatim>\<open>wait_until_version_final\<close> fail with the generation error, the
  \<^verbatim>\<open>RuntimeError\<close> of \<^verbatim>\<open>raise_if_failed\<close>. When the task record carries a non-empty error
  message (an \<^verbatim>\<open>error\<close> entry \<open>m\<close> that Python counts as true), the error carries exactly
  that entry; when the entry is missing, null or empty, it carries \<^verbatim>\<open>Generation failed\<close>.
  No further request is sent.
\<close>

theorem failed_task_raises_its_message:
  assumes "wait_response L N w0 task_id version per_request overall w 200 resp"
    and "ok_envelope resp state"
    and "get_version_task state version = Inr (Some t)"
    and "py_get t ''status'' = Inr (JStr ''failed'')"
    and "py_get t ''error'' = Inr m"
  shows "wait_until_version_final L N w0 task_id version per_request overall
           = Some (Inl (RuntimeError (if truthy m then m else JStr ''Generation failed'')),
                   issue N w (''GET'', wait_url task_id per_request, None))"
proof -
  from assms(1) have "\<not> deadline_passed (run_deadline w0 overall) w"
    and "sync_http_json L (urlopen N (length (sent w))) = Inr (200, resp)"
    by (simp_all add: wait_response_def)
  from poll_loop_failed [OF this assms(2-5)] show ?thesis
    by (simp add: wait_response_poll_loop [OF assms(1)] py_or_def)
qed

theorem failed_task_raises_its_message_witness:
  \<open>wait_until_version_final lib0
     (net_const (Response 200
        ''{"data": {"tasks": [{"version": "v1", "status": "failed", "error": "X"}]}, "success": true}''
        None) 1)
     world0 ''obj1'' ''v1'' 30 (Some 600)
   = Some (Inl (RuntimeError (JStr ''X'')),
           \<lparr>now = 1, sent = [(''GET'', wait_url ''obj1'' 30, None)], slept = []\<rparr>)\<close>
proof -
  let ?N = \<open>net_const (Response 200
        ''{"data": {"tasks": [{"version": "v1", "status": "failed", "error": "X"}]}, "success": true}''
        None) 1\<close>
  have "sync_http_json lib0 (urlopen ?N (length (sent world0)))
          = Inr (200, ex_envelope (ex_state [ex_task_error ''X'']))"
    by (simp add: net_const_def ex_response ex_documents_def)
  then have r: "wait_response lib0 ?N world0 ''obj1'' ''v1'' 30 (Some 600) world0 200
                  (ex_envelope (ex_state [ex_task_error ''X'']))"
    by (intro wait_response_first) simp_all
  have s: "py_get (ex_task_error ''X'') ''status'' = Inr (JStr ''failed'')"
    and m: "py_get (ex_task_error ''X'') ''error'' = Inr (JStr ''X'')"
    by (simp_all add: ex_task_error_def)
  from failed_task_raises_its_message [OF r ex_ok_envelope ex_task_error_found s m]
  show ?thesis
    by (simp add: issue_def world0_def net_const_def)
qed

subsection \<open>C4: creating a generation\<close>

lemma create_generation_reply:
  assumes "sync_http_json L (urlopen N (length (sent w))) = Inr (status, resp)"
  shows "create_generation L N w nm ds md =
     (let w1 = issue N w (create_request L N nm ds md)
      in case envelope_failed status resp of
           Inl e \<Rightarrow> (Inl e, w1)
         | Inr True \<Rightarrow>
             (Inl (error_or resp (''Failed to create generation: '' @ py_str L resp)), w1)
         | Inr False \<Rightarrow>
             (case data_id resp of
                Inl e \<Rightarrow> (Inl e, w1)
              | Inr (JStr i) \<Rightarrow>
                  (Inr \<lparr>meta_id = i, meta_version = make_version L N, meta_name = nm,
                        meta_description = ds\<rparr>, w1)
              | Inr _ \<Rightarrow> (Inl (TypeError ''id is not string''), w1)))"
  using assms
  by (simp add: create_generation_def http_json_def create_request_def data_id_def Let_def
      split: sum.splits bool.splits)

lemma main_create_fails:
  "create_generation L N w nm ds ''gemini-3-flash-preview'' = (Inl e, w1) \<Longrightarrow>
   main L N w nm ds = Some (Inl e, w1)"
  by (simp add: main_def)

lemma ex_created:
  \<open>sync_http_json lib0
      (urlopen (net_const (Response 200 ''{"success": true, "data": {"id": "obj1"}}'' None) 1)
         (length (sent world0)))
     = Inr (200, ex_envelope (JObj [(''id'', JStr ''obj1'')]))\<close>
  by (simp add: net_const_def ex_response ex_documents_def)

lemma ex_bad_id:
  \<open>sync_http_json lib0
      (urlopen (net_const (Response 200 ''{"success": true, "data": {"id": 7}}'' None) 1)
         (length (sent world0)))
     = Inr (200, ex_envelope (JObj [(''id'', JInt 7)]))\<close>
  by (simp add: net_const_def ex_response ex_documents_def)

lemma ex_no_id:
  \<open>sync_http_json lib0
      (urlopen (net_const (Response 200 ''{"success": true, "data": {}}'' None) 1)
         (length (sent world0)))
     = Inr (200, ex_envelope (JObj []))\<close>
  by (simp add: net_const_def ex_response ex_documents_def)

lemma ex_refused:
  \<open>sync_http_json lib0
      (urlopen (net_const (HTTPError 500 ''{"success": false, "error": "no such object"}'') 1)
         (length (sent world0)))
     = Inr (500, JObj [(''success'', JBool False), (''error'', JStr ''no such object'')])\<close>
  by (simp add: net_const_def ex_error_response ex_documents_def)

lemma ex_null:
  \<open>sync_http_json lib0
      (urlopen (net_const (HTTPError 500 ''null'') 1) (length (sent world0)))
     = Inr (500, JNull)\<close>
  by (simp add: net_const_def ex_error_response ex_documents_def)

lemma ex_envelope_entries:
  "py_get (ex_envelope d) ''success'' = Inr (JBool True)"
  "py_get (ex_envelope d) ''error'' = Inr JNull"
  "py_getitem (ex_envelope d) ''data'' = Inr d"
  "data_id (ex_envelope d) = py_getitem d ''id''"
  by (simp_all add: ex_envelope_def data_id_def)

text \<open>
  Claim C4 says that \<^verbatim>\<open>create\<close> fails with the request error also when \<^verbatim>\<open>data.id\<close> is
  missing or not a string. For the response \<^verbatim>\<open>{"success": true, "data": {"id": 7}}\<close> it
  fails with \<^verbatim>\<open>TypeError\<close>, which is not the \<^verbatim>\<open>RuntimeError\<close> of a failed request.
\<close>

theorem create_bad_id_counterexample:
  \<open>fst (create_generation lib0
          (net_const (Response 200 ''{"success": true, "data": {"id": 7}}'' None) 1)
          world0 ''plane'' ''a plane'' ''gemini'')
     = Inl (TypeError ''id is not string'')\<close>
  by (simp add: create_generation_reply [OF ex_bad_id] ex_envelope_entries envelope_failed_def)

text \<open>
  Claim C4, amended, for a creation response that \<^verbatim>\<open>http_json\<close> returns as a status and a
  parsed body: \<^verbatim>\<open>create_generation\<close> sends one request, the POST. When the body is a JSON
  object, it fails with the request error (\<^verbatim>\<open>RuntimeError\<close>) whenever the HTTP status is not
  200 or the success flag is false; when the body is JSON of another kind, it fails with
  the \<^verbatim>\<open>AttributeError\<close> of \<^verbatim>\<open>resp.get\<close>. With status 200, an object body and a true flag it
  fails with \<^verbatim>\<open>TypeError\<close> when \<^verbatim>\<open>data.id\<close> is there and is not a string, with \<^verbatim>\<open>KeyError\<close> when
  \<^verbatim>\<open>data\<close> is an object without \<^verbatim>\<open>id\<close>, and in general with the error of the subscript
  \<^verbatim>\<open>resp["data"]["id"]\<close> when that cannot be read; otherwise it returns an \<^verbatim>\<open>ObjectMetadata\<close>
  that carries the id the server assigned. When it fails, \<^verbatim>\<open>main\<close> ends with the same error
  in the world right after the POST, so before any wait request.
\<close>

theorem create_generation_outcomes:
  assumes "sync_http_json L (urlopen N (length (sent w))) = Inr (status, resp)"
  shows "snd (create_generation L N w object_name description model)
           = issue N w (create_request L N object_name description model)
       \<and> (py_get resp ''success'' = Inr s \<and> py_get resp ''error'' = Inr m
              \<and> (status \<noteq> 200 \<or> \<not> truthy s) \<longrightarrow>
            fst (create_generation L N w object_name description model)
              = Inl (RuntimeError
                       (py_or m (JStr (''Failed to create generation: '' @ py_str L resp)))))
       \<and> ((\<forall>d. resp \<noteq> JObj d) \<longrightarrow>
            fst (create_generation L N w object_name description model)
              = Inl (no_attribute resp ''get''))
       \<and> (status = 200 \<and> py_get resp ''success'' = Inr s \<and> truthy s
              \<and> data_id resp = Inr x \<and> (\<forall>i. x \<noteq> JStr i) \<longrightarrow>
            fst (create_generation L N w object_name description model)
              = Inl (TypeError ''id is not string''))
       \<and> (status = 200 \<and> py_get resp ''success'' = Inr s \<and> truthy s
              \<and> py_getitem resp ''data'' = Inr (JObj dd) \<and> map_of dd ''id'' = None \<longrightarrow>
            fst (create_generation L N w object_name description model) = Inl (KeyError ''id''))
       \<and> (status = 200 \<and> py_get resp ''success'' = Inr s \<and> truthy s
              \<and> data_id resp = Inl e \<longrightarrow>
            fst (create_generation L N w object_name description model) = Inl e)
       \<and> (status = 200 \<and> py_get resp ''success'' = Inr s \<and> truthy s
              \<and> data_id resp = Inr (JStr task_id) \<longrightarrow>
            fst (create_generation L N w object_name description model)
              = Inr \<lparr>meta_id = task_id, meta_version = make_version L N,
                     meta_name = object_name, meta_description = description\<rparr>)
       \<and> (fst (create_generation L N w object_name description ''gemini-3-flash-preview'') = Inl e' \<longrightarrow>
            main L N w object_name description
              = Some (Inl e', issue N w (create_request L N object_name description
                                            ''gemini-3-flash-preview'')))"
proof -
  note r = create_generation_reply [OF assms]
  have w: "snd (create_generation L N w nm ds md) = issue N w (create_request L N nm ds md)"
    for nm ds md
    unfolding r [of nm ds md]
    by (simp add: Let_def split: sum.splits json.splits bool.splits)
  have f: "envelope_failed status resp = Inr (status \<noteq> 200 \<or> \<not> truthy s)"
    if "py_get resp ''success'' = Inr s"
    using that by (simp add: envelope_failed_def)
  have a: "fst (create_generation L N w object_name description model)
             = Inl (RuntimeError (py_or m (JStr (''Failed to create generation: '' @ py_str L resp))))"
    if "py_get resp ''success'' = Inr s" "py_get resp ''error'' = Inr m"
      "status \<noteq> 200 \<or> \<not> truthy s"
    unfolding r f [OF that(1)] using that(2,3) by (auto simp add: Let_def error_or_def)
  have n: "fst (create_generation L N w object_name description model)
             = Inl (no_attribute resp ''get'')"
    if "\<forall>d. resp \<noteq> JObj d"
    unfolding r using that
    by (cases "status = 200")
      (simp_all add: Let_def envelope_failed_def py_get_not_object error_or_not_object)
  have b: "fst (create_generation L N w object_name description model)
             = Inl (TypeError ''id is not string'')"
    if "status = 200" "py_get resp ''success'' = Inr s" "truthy s"
      "data_id resp = Inr x" "\<forall>i. x \<noteq> JStr i"
    unfolding r f [OF that(2)] using that(1,3,4,5) by (cases x) (simp_all add: Let_def)
  have c: "fst (create_generation L N w object_name description model) = Inl e"
    if "status = 200" "py_get resp ''success'' = Inr s" "truthy s" "data_id resp = Inl e" for e
    unfolding r f [OF that(2)] using that(1,3,4) by (simp add: Let_def)
  have k: "data_id resp = Inl (KeyError ''id'')"
    if "py_getitem resp ''data'' = Inr (JObj dd)" "map_of dd ''id'' = None"
    using that by (simp add: data_id_def)
  have d: "fst (create_generation L N w object_name description model)
             = Inr \<lparr>meta_id = task_id, meta_version = make_version L N,
                    meta_name = object_name, meta_description = description\<rparr>"
    if "status = 200" "py_get resp ''success'' = Inr s" "truthy s"
      "data_id resp = Inr (JStr task_id)"
    unfolding r f [OF that(2)] using that(1,3,4) by (simp add: Let_def)
  have e: "main L N w object_name description
             = Some (Inl e', issue N w (create_request L N object_name description
                                           ''gemini-3-flash-preview''))"
    if "fst (create_generation L N w object_name description ''gemini-3-flash-preview'') = Inl e'"
    using that w [of object_name description "''gemini-3-flash-preview''"]
    by (intro main_create_fails) (simp add: prod_eq_iff)
  from w a n b c k d e show ?thesis
    by blast
qed

theorem create_generation_outcomes_witness:
  \<open>fst (create_generation lib0
          (net_const (HTTPError 500 ''{"success": false, "error": "no such object"}'') 1)
          world0 ''plane'' ''a plane'' ''gemini'')
     = Inl (RuntimeError (JStr ''no such object''))
   \<and> fst (create_generation lib0 (net_const (HTTPError 500 ''null'') 1)
          world0 ''plane'' ''a plane'' ''gemini'')
     = Inl (no_attribute JNull ''get'')
   \<and> fst (create_generation lib0
          (net_const (Response 200 ''{"success": true, "data": {}}'' None) 1)
          world0 ''plane'' ''a plane'' ''gemini'')
     = Inl (KeyError ''id'')
   \<and> create_generation lib0
          (net_const (Response 200 ''{"success": true, "data": {"id": "obj1"}}'' None) 1)
          world0 ''plane'' ''a plane'' ''gemini''
     = (Inr \<lparr>meta_id = ''obj1'',
             meta_version = make_version lib0
               (net_const (Response 200 ''{"success": true, "data": {"id": "obj1"}}'' None) 1),
             meta_name = ''plane'', meta_description = ''a plane''\<rparr>,
        issue (net_const (Response 200 ''{"success": true, "data": {"id": "obj1"}}'' None) 1)
          world0
          (create_request lib0
             (net_const (Response 200 ''{"success": true, "data": {"id": "obj1"}}'' None) 1)
             ''plane'' ''a plane'' ''gemini''))
   \<and> main lib0 (net_const (Response 200 ''{"success": true, "data": {"id": 7}}'' None) 1)
        world0 ''plane'' ''a plane''
     = Some (Inl (TypeError ''id is not string''),
             issue (net_const (Response 200 ''{"success": true, "data": {"id": 7}}'' None) 1)
               world0
               (create_request lib0
                  (net_const (Response 200 ''{"success": true, "data": {"id": 7}}'' None) 1)
                  ''plane'' ''a plane'' ''gemini-3-flash-preview''))\<close>
proof -
  note refused = create_generation_outcomes
    [OF ex_refused, where s = "JBool False" and m = "JStr ''no such object''"
      and object_name = "''plane''" and description = "''a plane''" and model = "''gemini''"]
  note null = create_generation_outcomes
    [OF ex_null, where object_name = "''plane''" and description = "''a plane''"
      and model = "''gemini''"]
  note no_id = create_generation_outcomes
    [OF ex_no_id, where s = "JBool True" and dd = "[]"
      and object_name = "''plane''" and description = "''a plane''" and model = "''gemini''"]
  note created = create_generation_outcomes
    [OF ex_created, where s = "JBool True" and task_id = "''obj1''"
      and object_name = "''plane''" and description = "''a plane''" and model = "''gemini''"]
  note bad_id = create_generation_outcomes
    [OF ex_bad_id, where s = "JBool True" and x = "JInt 7"
      and e' = "TypeError ''id is not string''"
      and object_name = "''plane''" and description = "''a plane''"
      and model = "''gemini-3-flash-preview''"]
  have \<open>fst (create_generation lib0
          (net_const (HTTPError 500 ''{"success": false, "error": "no such object"}'') 1)
          world0 ''plane'' ''a plane'' ''gemini'')
     = Inl (RuntimeError (JStr ''no such object''))\<close>
    using refused by (simp add: py_or_def)
  moreover have "fst (create_generation lib0 (net_const (HTTPError 500 ''null'') 1)
          world0 ''plane'' ''a plane'' ''gemini'')
     = Inl (no_attribute JNull ''get'')"
    using null by simp
  moreover have \<open>fst (create_generation lib0
          (net_const (Response 200 ''{"success": true, "data": {}}'' None) 1)
          world0 ''plane'' ''a plane'' ''gemini'')
     = Inl (KeyError ''id'')\<close>
    using no_id by (simp add: ex_envelope_entries)
  moreover have \<open>create_generation lib0
          (net_const (Response 200 ''{"success": true, "data": {"id": "obj1"}}'' None) 1)
          world0 ''plane'' ''a plane'' ''gemini''
     = (Inr \<lparr>meta_id = ''obj1'',
             meta_version = make_version lib0
               (net_const (Response 200 ''{"success": true, "data": {"id": "obj1"}}'' None) 1),
             meta_name = ''plane'', meta_description = ''a plane''\<rparr>,
        issue (net_const (Response 200 ''{"success": true, "data": {"id": "obj1"}}'' None) 1)
          world0
          (create_request lib0
             (net_const (Response 200 ''{"success": true, "data": {"id": "obj1"}}'' None) 1)
             ''plane'' ''a plane'' ''gemini''))\<close>
    using created by (simp add: ex_envelope_entries prod_eq_iff)
  moreover have \<open>main lib0 (net_const (Response 200 ''{"success": true, "data": {"id": 7}}'' None) 1)
        world0 ''plane'' ''a plane''
     = Some (Inl (TypeError ''id is not string''),
             issue (net_const (Response 200 ''{"success": true, "data": {"id": 7}}'' None) 1)
               world0
               (create_request lib0
                  (net_const (Response 200 ''{"success": true, "data": {"id": 7}}'' None) 1)
                  ''plane'' ''a plane'' ''gemini-3-flash-preview''))\<close>
    using bad_id by (simp add: ex_envelope_entries)
  ultimately show ?thesis
    by blast
qed

subsection \<open>C5: a task that is absent\<close>

lemma not_visible_continues:
  assumes r: "wait_response L N w0 tid v pr ov w 200 resp"
    and e: "ok_envelope resp state"
    and s: "get_version_status state v = Inr None"
  defines "w2 \<equiv> sleep (1 / 10) (issue N w (''GET'', wait_url tid pr, None))"
  shows "poll_once L N tid v pr ov (run_deadline w0 ov) w = (Continue, w2)"
    and "loop_head L N tid v pr ov (run_deadline w0 ov) w0 w2"
    and "wait_until_version_final L N w0 tid v pr ov
           = poll_loop L N tid v pr ov (run_deadline w0 ov) w2"
proof -
  from r have h: "loop_head L N tid v pr ov (run_deadline w0 ov) w0 w"
    and d: "\<not> deadline_passed (run_deadline w0 ov) w"
    and j: "sync_http_json L (urlopen N (length (sent w))) = Inr (200, resp)"
    by (simp_all add: wait_response_def)
  show p: "poll_once L N tid v pr ov (run_deadline w0 ov) w = (Continue, w2)"
    using s by (simp add: poll_once_ok_envelope [OF d j e] w2_def)
  from h p show l: "loop_head L N tid v pr ov (run_deadline w0 ov) w0 w2"
    by (rule loop_head.again)
  then show "wait_until_version_final L N w0 tid v pr ov
               = poll_loop L N tid v pr ov (run_deadline w0 ov) w2"
    by (simp add: wait_until_version_final_poll_loop loop_head_poll_loop)
qed

text \<open>
  Claim C5: when the task of the version is absent from a successful wait response, the
  loop sleeps 0.1 seconds and goes back to its top (the pass ends in \<open>Continue\<close>, in the
  world after the request and the sleep). The deadline is not looked at between the
  response and the sleep: even when it has already passed as the response arrives, the
  call first sleeps and only then raises \<^verbatim>\<open>TimeoutError\<close>.
\<close>

theorem absent_task_sleeps_and_retries:
  assumes "wait_response L N w0 task_id version per_request overall w 200 resp"
    and "ok_envelope resp state"
    and "get_version_task state version = Inr None"
  shows "poll_once L N task_id version per_request overall (run_deadline w0 overall) w
           = (Continue, sleep (1 / 10) (issue N w (''GET'', wait_url task_id per_request, None)))
       \<and> loop_head L N task_id version per_request overall (run_deadline w0 overall) w0
           (sleep (1 / 10) (issue N w (''GET'', wait_url task_id per_request, None)))
       \<and> (deadline_passed (run_deadline w0 overall)
             (issue N w (''GET'', wait_url task_id per_request, None)) \<longrightarrow>
           wait_until_version_final L N w0 task_id version per_request overall
             = Some (Inl (TimeoutError
                       (''Overall timeout reached ('' @ fmt_opt_int overall @ ''s)'')),
                     sleep (1 / 10) (issue N w (''GET'', wait_url task_id per_request, None))))"
proof -
  define w2 where "w2 = sleep (1 / 10) (issue N w (''GET'', wait_url task_id per_request, None))"
  have s: "get_version_status state version = Inr None"
    using assms(3) by (rule get_version_status_absent)
  note c = not_visible_continues [OF assms(1,2) s, folded w2_def]
  have "wait_until_version_final L N w0 task_id version per_request overall
          = Some (Inl (TimeoutError (''Overall timeout reached ('' @ fmt_opt_int overall @ ''s)'')), w2)"
    if "deadline_passed (run_deadline w0 overall)
          (issue N w (''GET'', wait_url task_id per_request, None))"
  proof -
    have "deadline_passed (run_deadline w0 overall) w2"
      using that by (rule deadline_passed_later) (simp add: w2_def sleep_simps)
    then show ?thesis
      by (simp add: c(3) poll_loop_Finished poll_once_expired)
  qed
  with c(1,2) show ?thesis
    unfolding w2_def by blast
qed

theorem absent_task_sleeps_and_retries_witness:
  \<open>poll_once lib0
      (net_const (Response 200 ''{"data": {"tasks": []}, "success": true}'' None) 700)
      ''obj1'' ''v1'' 30 (Some 600) (run_deadline world0 (Some 600)) world0
     = (Continue, \<lparr>now = 700 + 1 / 10, sent = [(''GET'', wait_url ''obj1'' 30, None)],
                   slept = [1 / 10]\<rparr>)
   \<and> wait_until_version_final lib0
        (net_const (Response 200 ''{"data": {"tasks": []}, "success": true}'' None) 700)
        world0 ''obj1'' ''v1'' 30 (Some 600)
     = Some (Inl (TimeoutError (''Overall timeout reached ('' @ fmt_opt_int (Some 600) @ ''s)'')),
             \<lparr>now = 700 + 1 / 10, sent = [(''GET'', wait_url ''obj1'' 30, None)],
               slept = [1 / 10]\<rparr>)\<close>
proof -
  let ?N = \<open>net_const (Response 200 ''{"data": {"tasks": []}, "success": true}'' None) 700\<close>
  have "sync_http_json lib0 (urlopen ?N (length (sent world0)))
          = Inr (200, ex_envelope (ex_state []))"
    by (simp add: net_const_def ex_response ex_documents_def)
  then have r: "wait_response lib0 ?N world0 ''obj1'' ''v1'' 30 (Some 600) world0 200
                  (ex_envelope (ex_state []))"
    by (intro wait_response_first) simp_all
  have d: "deadline_passed (run_deadline world0 (Some 600))
             (issue ?N world0 (''GET'', wait_url ''obj1'' 30, None))"
    by (simp add: run_deadline_def deadline_passed_def issue_def world0_def net_const_def)
  from absent_task_sleeps_and_retries [OF r ex_ok_envelope ex_task_absent] d
  show ?thesis
    by (simp add: sleep_def issue_def world0_def net_const_def)
qed

subsection \<open>C6: the error message of a failed content fetch\<close>

lemma sync_http_bytes_HTTPError:
  "sync_http_bytes_with_content_type L (HTTPError code body)
     = Inl (RuntimeError (JStr (decode_utf8_replace L body)))"
  by (cases "content_error_try L body") (simp_all add: sync_http_bytes_with_content_type_def)

text \<open>
  Claim C6 says that an HTTP error during the content fetch fails with an error whose
  message is the server's \<^verbatim>\<open>error\<close> field when the body is JSON that has one, and the raw
  body text otherwise. The code raises that error inside the \<^verbatim>\<open>try\<close> block, where its own
  \<^verbatim>\<open>except Exception\<close> catches it and raises the raw body text instead: for the body
  \<^verbatim>\<open>{"error": "boom"}\<close> the block raises \<^verbatim>\<open>RuntimeError("boom")\<close>, and the function raises
  \<^verbatim>\<open>RuntimeError('{"error": "boom"}')\<close>.
\<close>

theorem content_error_message_is_raw_body:
  \<open>content_error_try lib0 ''{"error": "boom"}'' = RuntimeError (JStr ''boom'')
   \<and> sync_http_bytes_with_content_type lib0 (HTTPError 500 ''{"error": "boom"}'')
       = Inl (RuntimeError (JStr ''{"error": "boom"}''))
   \<and> fst (get_object_content_glb lib0 (net_const (HTTPError 500 ''{"error": "boom"}'') 1)
             world0 ''obj1'' ''v1'')
       = Inl (RuntimeError (JStr ''{"error": "boom"}''))\<close>
  by (simp add: sync_http_bytes_HTTPError get_object_content_glb_def
      http_bytes_with_content_type_def net_const_def)
    (simp add: content_error_try_def lib0_def ex_documents_def py_or_def)

subsection \<open>C7: bodies that are not JSON\<close>







subsection \<open>C8: a 404 response\<close>

lemma poll_loop_not_found:
  assumes "\<not> deadline_passed dl w"
    and "sync_http_json L (urlopen N (length (sent w))) = Inr (404, resp)"
  shows "poll_loop L N tid v pr ov dl w
           = Some (Inl (error_or resp ''Object not found''),
                   issue N w (''GET'', wait_url tid pr, None))"
  by (simp add: poll_loop_Finished poll_once_reply [OF assms])

text \<open>
  Claim C8 says that every wait response with HTTP status 404 makes the call fail with
  the not-found error. It does not when the body of the response is JSON that is not an
  object: for the body \<^verbatim>\<open>null\<close> the helper returns \<^verbatim>\<open>(404, None)\<close>, and \<^verbatim>\<open>resp.get("error")\<close>
  raises \<^verbatim>\<open>AttributeError\<close>.
\<close>

theorem not_found_null_body_counterexample:
  "sync_http_json lib0 (HTTPError 404 ''null'') = Inr (404, JNull)
   \<and> map_option fst
         (wait_until_version_final lib0 (net_const (HTTPError 404 ''null'') 1) world0
            ''obj1'' ''v1'' 30 None)
       = Some (Inl (AttributeError
                      (py_quote ''NoneType'' @ '' object has no attribute '' @ py_quote ''get'')))"
proof -
  have r: "sync_http_json lib0 (HTTPError 404 ''null'') = Inr (404, JNull)"
    by (rule ex_error_response) (simp add: ex_documents_def)
  have d: "\<not> deadline_passed (run_deadline world0 None) world0"
    by (simp add: run_deadline_def deadline_passed_def)
  have "sync_http_json lib0
          (urlopen (net_const (HTTPError 404 ''null'') 1) (length (sent world0)))
        = Inr (404, JNull)"
    by (simp add: net_const_def r)
  from poll_loop_not_found [OF d this, of "''obj1''" "''v1''" 30 None] r
  show ?thesis
    by (simp add: wait_until_version_final_poll_loop error_or_def no_attribute_def)
qed

text \<open>
  Claim C8, amended: a wait response with HTTP status 404 makes
  \<^verbatim>\<open>wait_until_version_final\<close> fail at once, in the world right after the answered request
  (no further request is sent and nothing is slept), whatever the clock says when the
  response arrives. When the response body is a JSON object, the error is the not-found
  error, the \<^verbatim>\<open>RuntimeError\<close> of line 203 that carries the \<^verbatim>\<open>error\<close> entry \<open>m\<close> of the body, or
  \<^verbatim>\<open>Object not found\<close> when that entry is missing or empty. When the body is JSON of another
  kind (null, a list, a string, a number), the error is the \<^verbatim>\<open>AttributeError\<close> of
  \<^verbatim>\<open>resp.get\<close>.
\<close>

theorem not_found_ends_the_wait:
  assumes "wait_response L N w0 task_id version per_request overall w 404 resp"
  shows "(py_get resp ''error'' = Inr m \<longrightarrow>
            wait_until_version_final L N w0 task_id version per_request overall
              = Some (Inl (RuntimeError (py_or m (JStr ''Object not found''))),
                      issue N w (''GET'', wait_url task_id per_request, None)))
       \<and> ((\<forall>d. resp \<noteq> JObj d) \<longrightarrow>
            wait_until_version_final L N w0 task_id version per_request overall
              = Some (Inl (no_attribute resp ''get''),
                      issue N w (''GET'', wait_url task_id per_request, None)))"
proof -
  from assms have "\<not> deadline_passed (run_deadline w0 overall) w"
    and "sync_http_json L (urlopen N (length (sent w))) = Inr (404, resp)"
    by (simp_all add: wait_response_def)
  then have "poll_loop L N task_id version per_request overall (run_deadline w0 overall) w
               = Some (Inl (error_or resp ''Object not found''),
                       issue N w (''GET'', wait_url task_id per_request, None))"
    by (rule poll_loop_not_found)
  then have "wait_until_version_final L N w0 task_id version per_request overall
               = Some (Inl (error_or resp ''Object not found''),
                       issue N w (''GET'', wait_url task_id per_request, None))"
    by (simp add: wait_response_poll_loop [OF assms])
  then show ?thesis
    by (simp add: error_or_object error_or_not_object)
qed

theorem not_found_ends_the_wait_witness:
  "wait_until_version_final lib0 net_gone world0 ''obj1'' ''v1'' 30 (Some 600)
     = Some (Inl (RuntimeError (JStr ''no such object'')),
             \<lparr>now = 701, sent = replicate 2 (''GET'', wait_url ''obj1'' 30, None), slept = []\<rparr>)
   \<and> wait_until_version_final lib0 (net_const (HTTPError 404 ''[]'') 1) world0
         ''obj1'' ''v1'' 30 (Some 600)
     = Some (Inl (no_attribute (JArr []) ''get''),
             \<lparr>now = 1, sent = [(''GET'', wait_url ''obj1'' 30, None)], slept = []\<rparr>)"
proof -
  define w1 where "w1 = issue net_gone world0 (''GET'', wait_url ''obj1'' 30, None)"
  have d: "\<not> deadline_passed (run_deadline world0 (Some 600)) world0"
    by (simp add: run_deadline_def deadline_passed_def world0_def)
  have "delivers lib0 net_gone (length (sent world0)) (ex_state [ex_task ''processing''])"
    by (simp add: delivers_iff net_gone_def world0_def ex_response ex_documents_def ex_ok_envelope)
  with d have "poll_once lib0 net_gone ''obj1'' ''v1'' 30 (Some 600)
                 (run_deadline world0 (Some 600)) world0 = (Continue, w1)"
    unfolding w1_def using ex_task_status by (rule poll_once_processing)
  with loop_head.first
  have h: "loop_head lib0 net_gone ''obj1'' ''v1'' 30 (Some 600)
             (run_deadline world0 (Some 600)) world0 w1"
    by (rule loop_head.again)
  have r: "wait_response lib0 net_gone world0 ''obj1'' ''v1'' 30 (Some 600) w1 404
             (JObj [(''success'', JBool False), (''error'', JStr ''no such object'')])"
    unfolding wait_response_def using h
    by (simp add: run_deadline_def deadline_passed_def world0_def w1_def issue_def net_gone_def
        ex_error_response ex_documents_def)
  have m: "py_get (JObj [(''success'', JBool False), (''error'', JStr ''no such object'')]) ''error''
             = Inr (JStr ''no such object'')"
    by simp
  from not_found_ends_the_wait [OF r, THEN conjunct1, THEN mp, OF m]
  have a: "wait_until_version_final lib0 net_gone world0 ''obj1'' ''v1'' 30 (Some 600)
     = Some (Inl (RuntimeError (JStr ''no such object'')),
             \<lparr>now = 701, sent = replicate 2 (''GET'', wait_url ''obj1'' 30, None), slept = []\<rparr>)"
    by (simp add: py_or_def w1_def issue_def world0_def net_gone_def numeral_2_eq_2)
  have "sync_http_json lib0
          (urlopen (net_const (HTTPError 404 ''[]'') 1) (length (sent world0)))
        = Inr (404, JArr [])"
    by (simp add: net_const_def ex_error_response ex_documents_def)
  then have r2: "wait_response lib0 (net_const (HTTPError 404 ''[]'') 1) world0
                   ''obj1'' ''v1'' 30 (Some 600) world0 404 (JArr [])"
    by (intro wait_response_first) simp_all
  have n: "\<forall>d. JArr [] \<noteq> JObj d"
    by simp
  from not_found_ends_the_wait [OF r2, THEN conjunct2, THEN mp, OF n]
  have b: "wait_until_version_final lib0 (net_const (HTTPError 404 ''[]'') 1) world0
         ''obj1'' ''v1'' 30 (Some 600)
     = Some (Inl (no_attribute (JArr []) ''get''),
             \<lparr>now = 1, sent = [(''GET'', wait_url ''obj1'' 30, None)], slept = []\<rparr>)"
    by (simp add: issue_def world0_def net_const_def)
  from a b show ?thesis ..
qed

subsection \<open>C9: a status that is not recognized\<close>



end
